theory Spec2Isabelle
  imports Complex_Main
begin

section \<open>Floats\<close>

text \<open>
  A Python float. A finite one is modelled by the real number that is its value, so not
  every \<open>Finite x\<close> is a double, and the two zeros are one value; the infinities and NaN
  are values of their own.
\<close>

datatype pyfloat = Finite real | PosInf | NegInf | NaN

text \<open>
  Conversion of the fraction \<open>a / b\<close> to the nearest double, ties to even: a mantissa of
  at most 53 bits and an exponent that is at least \<open>- 1074\<close>; \<open>None\<close> when the result is
  beyond the largest double.
\<close>

fun bitlen :: "nat \<Rightarrow> nat" where
  "bitlen n = (if n = 0 then 0 else Suc (bitlen (n div 2)))"

declare bitlen.simps [simp del]

definition floor_log2 :: "nat \<Rightarrow> nat \<Rightarrow> int" where
  "floor_log2 a b =
     (let k = int (bitlen a) - int (bitlen b)
      in if (if 0 \<le> k then b * 2 ^ nat k \<le> a else b \<le> a * 2 ^ nat (- k)) then k else k - 1)"

definition round_half_even :: "nat \<Rightarrow> nat \<Rightarrow> nat" where
  "round_half_even n d =
     (let q = n div d; r = n mod d
      in if d < 2 * r \<or> (2 * r = d \<and> odd q) then q + 1 else q)"

definition pow2 :: "int \<Rightarrow> real" where
  "pow2 e = (if 0 \<le> e then 2 ^ nat e else 1 / 2 ^ nat (- e))"

definition nearest_double :: "nat \<Rightarrow> nat \<Rightarrow> real option" where
  "nearest_double a b =
     (if a = 0 then Some 0
      else let e = max (floor_log2 a b - 52) (- 1074);
               m = (if 0 \<le> e then round_half_even a (b * 2 ^ nat e)
                    else round_half_even (a * 2 ^ nat (- e)) b)
           in if 971 < e \<or> (e = 971 \<and> m = 2 ^ 53) then None else Some (real m * pow2 e))"

text \<open>A float literal and the reading of a string overflow to an infinity.\<close>

definition to_double :: "bool \<Rightarrow> nat \<Rightarrow> nat \<Rightarrow> pyfloat" where
  "to_double neg a b =
     (case nearest_double a b of
        None \<Rightarrow> (if neg then NegInf else PosInf)
      | Some v \<Rightarrow> Finite (if neg then - v else v))"

text \<open>The float that a literal of the value \<open>a / b\<close> denotes: \<open>1299.99\<close> is \<open>float_lit 129999 100\<close>.\<close>

definition float_lit :: "nat \<Rightarrow> nat \<Rightarrow> pyfloat" where
  "float_lit a b = to_double False a b"

text \<open>\<open>float(i)\<close> of an int: an OverflowError, here \<open>None\<close>, when it is beyond the doubles.\<close>

definition int_as_float :: "int \<Rightarrow> pyfloat option" where
  "int_as_float i =
     (case nearest_double (nat \<bar>i\<bar>) 1 of
        None \<Rightarrow> None
      | Some v \<Rightarrow> Some (Finite (if i < 0 then - v else v)))"

section \<open>Reading a string as a float\<close>

text \<open>
  What a \<open>float\<close> field makes of a string outside strict mode: surrounding whitespace is
  dropped; then, case-insensitively, an optional sign followed by \<open>inf\<close>, \<open>infinity\<close>,
  \<open>nan\<close>, or a number: digits with an optional point (a digit on at least one side of
  it) and an optional exponent \<open>e\<close>, optional sign, digits. A string that fails this way
  is tried once more with its underscores removed, when it has some, none at either end
  and no two in a row. A string is the UTF-8 bytes of the Python string.
\<close>

definition is_digit :: "char \<Rightarrow> bool" where
  "is_digit c = (48 \<le> (of_char c :: nat) \<and> (of_char c :: nat) \<le> 57)"

definition lower :: "char \<Rightarrow> char" where
  "lower c =
     (case map_of (zip ''ABCDEFGHIJKLMNOPQRSTUVWXYZ'' ''abcdefghijklmnopqrstuvwxyz'') c of
        None \<Rightarrow> c
      | Some l \<Rightarrow> l)"

text \<open>
  The whitespace characters that are dropped at both ends, each as its UTF-8 bytes: those of
  ASCII, U+0085, U+00A0, U+1680, U+2000 to U+200A, U+2028, U+2029, U+202F, U+205F, U+3000.
\<close>

definition whitespace :: "string list" where
  "whitespace =
     [[CHR 0x09], [CHR 0x0A], [CHR 0x0B], [CHR 0x0C], [CHR 0x0D], [CHR 0x20],
      [CHR 0xC2, CHR 0x85], [CHR 0xC2, CHR 0xA0], [CHR 0xE1, CHR 0x9A, CHR 0x80],
      [CHR 0xE2, CHR 0x80, CHR 0x80], [CHR 0xE2, CHR 0x80, CHR 0x81],
      [CHR 0xE2, CHR 0x80, CHR 0x82], [CHR 0xE2, CHR 0x80, CHR 0x83],
      [CHR 0xE2, CHR 0x80, CHR 0x84], [CHR 0xE2, CHR 0x80, CHR 0x85],
      [CHR 0xE2, CHR 0x80, CHR 0x86], [CHR 0xE2, CHR 0x80, CHR 0x87],
      [CHR 0xE2, CHR 0x80, CHR 0x88], [CHR 0xE2, CHR 0x80, CHR 0x89],
      [CHR 0xE2, CHR 0x80, CHR 0x8A], [CHR 0xE2, CHR 0x80, CHR 0xA8],
      [CHR 0xE2, CHR 0x80, CHR 0xA9], [CHR 0xE2, CHR 0x80, CHR 0xAF],
      [CHR 0xE2, CHR 0x81, CHR 0x9F], [CHR 0xE3, CHR 0x80, CHR 0x80]]"

text \<open>The length of the whitespace character that \<open>s\<close> starts with, 0 when it starts with none.\<close>

definition space_at :: "string list \<Rightarrow> string \<Rightarrow> nat" where
  "space_at ws s = (case find (\<lambda>w. take (length w) s = w) ws of None \<Rightarrow> 0 | Some w \<Rightarrow> length w)"

function drop_spaces :: "string list \<Rightarrow> string \<Rightarrow> string" where
  "drop_spaces ws s =
     (if space_at ws s = 0 then s else drop_spaces ws (drop (space_at ws s) s))"
  by pat_completeness auto
termination
proof (relation "measure (\<lambda>(ws, s). length s)")
  show "wf (measure (\<lambda>(ws, s). length s))" by simp
next
  fix ws :: "string list" and s :: string
  assume n: "space_at ws s \<noteq> 0"
  then obtain w where f: "find (\<lambda>w. take (length w) s = w) ws = Some w" and l: "length w \<noteq> 0"
    by (auto simp: space_at_def split: option.splits)
  then have "take (length w) s = w" by (auto simp: find_Some_iff)
  then have "s \<noteq> []" using l by auto
  then show "((ws, drop (space_at ws s) s), (ws, s)) \<in> measure (\<lambda>(ws, s). length s)"
    using n by simp
qed

declare drop_spaces.simps [simp del]

definition trim :: "string \<Rightarrow> string" where
  "trim s = rev (drop_spaces (map rev whitespace) (rev (drop_spaces whitespace s)))"

definition digits_value :: "string \<Rightarrow> nat" where
  "digits_value ds = fold (\<lambda>c acc. 10 * acc + ((of_char c :: nat) - 48)) ds 0"

fun split_sign :: "string \<Rightarrow> bool \<times> string" where
  "split_sign [] = (False, [])"
| "split_sign (c # r) =
     (if c = CHR ''-'' then (True, r) else if c = CHR ''+'' then (False, r) else (False, c # r))"

text \<open>The exponent part, which may be absent: its value.\<close>

fun parse_exp :: "string \<Rightarrow> int option" where
  "parse_exp [] = Some 0"
| "parse_exp (c # r) =
     (if c = CHR ''e''
      then (case split_sign r of
              (neg, ds) \<Rightarrow>
                if ds \<noteq> [] \<and> list_all is_digit ds
                then Some (if neg then - int (digits_value ds) else int (digits_value ds))
                else None)
      else None)"

text \<open>A number: its digits as one natural number, and the power of ten to scale it by.\<close>

definition parse_number :: "string \<Rightarrow> (nat \<times> int) option" where
  "parse_number u =
     (let ip = takeWhile is_digit u; r1 = dropWhile is_digit u
      in case r1 of
           [] \<Rightarrow> if ip = [] then None else Some (digits_value ip, 0)
         | c # r \<Rightarrow>
             if c = CHR ''.''
             then (let fp = takeWhile is_digit r; r2 = dropWhile is_digit r
                   in if ip = [] \<and> fp = [] then None
                      else map_option (\<lambda>x. (digits_value (ip @ fp), x - int (length fp)))
                             (parse_exp r2))
             else if ip = [] then None
             else map_option (\<lambda>x. (digits_value ip, x)) (parse_exp r1))"

definition scaled :: "bool \<Rightarrow> nat \<Rightarrow> int \<Rightarrow> pyfloat" where
  "scaled neg m x =
     (if 0 \<le> x then to_double neg (m * 10 ^ nat x) 1 else to_double neg m (10 ^ nat (- x)))"

definition parse_float :: "string \<Rightarrow> pyfloat option" where
  "parse_float t =
     (case split_sign (map lower t) of
        (neg, u) \<Rightarrow>
          if u = ''inf'' \<or> u = ''infinity'' then Some (if neg then NegInf else PosInf)
          else if u = ''nan'' then Some NaN
          else map_option (\<lambda>(m, x). scaled neg m x) (parse_number u))"

fun double_underscore :: "string \<Rightarrow> bool" where
  "double_underscore (c # d # r) = ((c = CHR ''_'' \<and> d = CHR ''_'') \<or> double_underscore (d # r))"
| "double_underscore r = False"

definition strip_underscores :: "string \<Rightarrow> string option" where
  "strip_underscores s =
     (if CHR ''_'' \<notin> set s \<or> hd s = CHR ''_'' \<or> last s = CHR ''_'' \<or> double_underscore s
      then None
      else Some (filter (\<lambda>c. c \<noteq> CHR ''_'') s))"

definition str_as_float :: "string \<Rightarrow> pyfloat option" where
  "str_as_float s =
     (case parse_float (trim s) of
        Some x \<Rightarrow> Some x
      | None \<Rightarrow> (case strip_underscores s of None \<Rightarrow> None | Some s' \<Rightarrow> parse_float s'))"

section \<open>Data model of \<open>app.py\<close>\<close>

text \<open>
  \<open>ItemBase\<close> is the request model (\<open>name: str\<close>, \<open>description: Optional[str] = None\<close>,
  \<open>price: float\<close>); \<open>ItemCreate\<close> adds nothing to it. An \<open>ItemModel\<close> that has not been
  flushed (\<open>ItemModel(**item.model_dump())\<close>, the three \<open>sample_items\<close>) carries exactly these
  three attributes and no id yet, so the same record stands for it.
\<close>

record ItemBase =
  name :: string
  description :: "string option"
  price :: pyfloat

type_synonym ItemCreate = ItemBase

text \<open>
  A row of the table \<open>items\<close>: the columns \<open>id\<close>, \<open>name\<close>, \<open>description\<close>, \<open>price\<close> of
  \<open>ItemModel\<close>. The \<open>Float\<close> column is nullable, \<open>None\<close> is its NULL. Python integers are
  unbounded, and so is \<open>id_col\<close>.
\<close>

record ItemModel =
  id_col :: int
  name_col :: string
  description_col :: "string option"
  price_col :: "pyfloat option"

text \<open>
  The declared column lengths, \<open>String(100)\<close> and \<open>String(500)\<close>. No operation below reads
  them: neither \<open>ItemBase\<close> nor the in-memory SQLite engine checks a declared length.
\<close>

definition name_length :: nat where
  "name_length = 100"

definition description_length :: nat where
  "description_length = 500"

definition within_declared_lengths :: "ItemModel \<Rightarrow> bool" where
  "within_declared_lengths r =
     (length (name_col r) \<le> name_length \<and>
      (case description_col r of None \<Rightarrow> True | Some d \<Rightarrow> length d \<le> description_length))"

text \<open>
  The database is the one table, its rows in the order \<open>db.query(ItemModel).all()\<close> yields
  them. Every request works on the same connection; a session that is opened, committed and
  closed within one request is modelled by the table before and after the request.
\<close>

type_synonym db = "ItemModel list"

text \<open>
  What an endpoint function can raise: the \<open>HTTPException\<close> it raises itself, and the
  \<open>OverflowError\<close> of the database driver for an integer parameter outside 64 bits.
\<close>

datatype exception = HTTPException (status_code: nat) (detail: string) | OverflowError

section \<open>Session operations\<close>

text \<open>The integers the driver can bind and the engine can hold: signed, 64 bits.\<close>

definition int64 :: "int \<Rightarrow> bool" where
  "int64 i = (- (2 ^ 63) \<le> i \<and> i \<le> 2 ^ 63 - 1)"

text \<open>
  \<open>db.query(ItemModel).filter(ItemModel.id == item_id).first()\<close>: the driver raises for an
  \<open>item_id\<close> it cannot bind; otherwise the first row of that id, if there is one.
\<close>

definition query_first :: "int \<Rightarrow> db \<Rightarrow> exception + ItemModel option" where
  "query_first item_id rows =
     (if int64 item_id then Inr (find (\<lambda>r. id_col r = item_id) rows) else Inl OverflowError)"

text \<open>
  The id given to an inserted row. The column is an integer primary key without
  autoincrement, so the engine takes the largest id in the table plus one, and 1 for an
  empty table. The engine's upper limit on the ids it assigns, \<open>2 ^ 63 - 1\<close>, is not
  modelled.
\<close>

definition max_id :: "db \<Rightarrow> int option" where
  "max_id rows =
     (case rows of [] \<Rightarrow> None | r # rs \<Rightarrow> Some (fold max (map id_col rs) (id_col r)))"

definition next_id :: "db \<Rightarrow> int" where
  "next_id rows = (case max_id rows of None \<Rightarrow> 1 | Some m \<Rightarrow> m + 1)"

text \<open>What the \<open>Float\<close> column holds once a float is written to it: the engine stores NaN as NULL.\<close>

definition stored_float :: "pyfloat \<Rightarrow> pyfloat option" where
  "stored_float x = (case x of NaN \<Rightarrow> None | _ \<Rightarrow> Some x)"

text \<open>\<open>db.add(item)\<close>, \<open>db.commit()\<close>, \<open>db.refresh(item)\<close>: the row as stored, and the table.\<close>

definition add_commit :: "ItemBase \<Rightarrow> db \<Rightarrow> ItemModel \<times> db" where
  "add_commit item rows =
     (let new_item = \<lparr>id_col = next_id rows, name_col = name item,
                      description_col = description item,
                      price_col = stored_float (price item)\<rparr>
      in (new_item, rows @ [new_item]))"

text \<open>
  \<open>setattr\<close> of every key of \<open>item.model_dump()\<close> on the loaded row, then \<open>db.commit()\<close> and
  \<open>db.refresh(db_item)\<close>: an UPDATE of the three columns where the id matches, and the row
  as it is stored then.
\<close>

definition set_attrs :: "ItemCreate \<Rightarrow> ItemModel \<Rightarrow> ItemModel" where
  "set_attrs item db_item =
     db_item\<lparr>name_col := name item, description_col := description item,
              price_col := stored_float (price item)\<rparr>"

definition update_commit :: "ItemModel \<Rightarrow> ItemCreate \<Rightarrow> db \<Rightarrow> db" where
  "update_commit db_item item rows =
     map (\<lambda>r. if id_col r = id_col db_item then set_attrs item r else r) rows"

text \<open>\<open>db.delete(db_item)\<close>, \<open>db.commit()\<close>: a DELETE where the id matches.\<close>

definition delete_commit :: "ItemModel \<Rightarrow> db \<Rightarrow> db" where
  "delete_commit db_item rows = filter (\<lambda>r. id_col r \<noteq> id_col db_item) rows"

section \<open>Seed data\<close>

definition sample_items :: "ItemBase list" where
  "sample_items =
     [\<lparr>name = ''Laptop'', description = Some ''A powerful laptop for development'',
       price = float_lit 129999 100\<rparr>,
      \<lparr>name = ''Smartphone'', description = Some ''Latest smartphone model'',
       price = float_lit 89999 100\<rparr>,
      \<lparr>name = ''Headphones'', description = Some ''Noise-cancelling headphones'',
       price = float_lit 24999 100\<rparr>]"

text \<open>The three inserts of the one commit, in the order the items were added.\<close>

definition seed_data :: "db \<Rightarrow> db" where
  "seed_data rows = fold (\<lambda>item acc. snd (add_commit item acc)) sample_items rows"

text \<open>The table after \<open>create_all\<close> and \<open>seed_data()\<close>, as the first request finds it.\<close>

definition startup :: db where
  "startup = seed_data []"

section \<open>Endpoint functions\<close>

text \<open>\<open>f"Item with ID {item_id} not found"\<close>, with Python's decimal rendering of an int.\<close>

fun str_nat :: "nat \<Rightarrow> string" where
  "str_nat n =
     (if n < 10 then [''0123456789'' ! n]
      else str_nat (n div 10) @ [''0123456789'' ! (n mod 10)])"

declare str_nat.simps [simp del]

definition str_int :: "int \<Rightarrow> string" where
  "str_int i = (if i < 0 then CHR ''-'' # str_nat (nat (- i)) else str_nat (nat i))"

definition not_found :: "int \<Rightarrow> exception" where
  "not_found item_id = HTTPException 404 (''Item with ID '' @ str_int item_id @ '' not found'')"

definition get_all_items :: "db \<Rightarrow> ItemModel list \<times> db" where
  "get_all_items rows = (rows, rows)"

definition get_item :: "int \<Rightarrow> db \<Rightarrow> (exception + ItemModel) \<times> db" where
  "get_item item_id rows =
     (case query_first item_id rows of
        Inl e \<Rightarrow> (Inl e, rows)
      | Inr None \<Rightarrow> (Inl (not_found item_id), rows)
      | Inr (Some item) \<Rightarrow> (Inr item, rows))"

definition create_item :: "ItemCreate \<Rightarrow> db \<Rightarrow> ItemModel \<times> db" where
  "create_item item rows = add_commit item rows"

definition update_item :: "int \<Rightarrow> ItemCreate \<Rightarrow> db \<Rightarrow> (exception + ItemModel) \<times> db" where
  "update_item item_id item rows =
     (case query_first item_id rows of
        Inl e \<Rightarrow> (Inl e, rows)
      | Inr None \<Rightarrow> (Inl (not_found item_id), rows)
      | Inr (Some db_item) \<Rightarrow> (Inr (set_attrs item db_item), update_commit db_item item rows))"

definition delete_item :: "int \<Rightarrow> db \<Rightarrow> (exception + unit) \<times> db" where
  "delete_item item_id rows =
     (case query_first item_id rows of
        Inl e \<Rightarrow> (Inl e, rows)
      | Inr None \<Rightarrow> (Inl (not_found item_id), rows)
      | Inr (Some db_item) \<Rightarrow> (Inr (), delete_commit db_item rows))"

section \<open>The HTTP layer\<close>

text \<open>
  What the framework does around an endpoint function: it parses the JSON body into the
  declared request model before the function is called and answers 422 when that fails;
  it renders a raised \<open>HTTPException\<close> as its status code with the body
  \<open>{"detail": ...}\<close>; it answers any other exception with 500; and it validates the
  returned value against the \<open>response_model\<close>, answers 500 when that fails, and
  otherwise renders it with the declared \<open>status_code\<close>. None of this is code of
  \<open>app.py\<close>; it is modelled as far as the routes of \<open>app.py\<close> use it.
\<close>

text \<open>A JSON value as \<open>json.loads\<close> gives it: its floats include NaN and the infinities.\<close>

datatype json =
    JNull
  | JBool bool
  | JInt int
  | JFloat pyfloat
  | JStr string
  | JArr "json list"
  | JObj "(string \<times> json) list"

text \<open>A response: the status code and the body, \<open>None\<close> for an empty body.\<close>

datatype content = JSON json | PlainText string

datatype Response = Response (status: nat) (body: "content option")

definition internal_server_error :: Response where
  "internal_server_error = Response 500 (Some (PlainText ''Internal Server Error''))"

text \<open>
  \<open>ItemResponse\<close>: the fields of \<open>ItemBase\<close>, then \<open>id\<close>, read from the row's attributes. Its
  \<open>price: float\<close> does not validate a row whose price is NULL. In the JSON rendering an
  infinite price is written \<open>null\<close>.
\<close>

definition float_json :: "pyfloat \<Rightarrow> json" where
  "float_json x = (case x of Finite v \<Rightarrow> JFloat x | _ \<Rightarrow> JNull)"

definition ItemResponse :: "ItemModel \<Rightarrow> json option" where
  "ItemResponse r =
     (case price_col r of
        None \<Rightarrow> None
      | Some x \<Rightarrow>
          Some (JObj [(''name'', JStr (name_col r)),
                      (''description'',
                         (case description_col r of None \<Rightarrow> JNull | Some d \<Rightarrow> JStr d)),
                      (''price'', float_json x),
                      (''id'', JInt (id_col r))]))"

definition render :: "nat \<Rightarrow> json option \<Rightarrow> Response" where
  "render code validated =
     (case validated of None \<Rightarrow> internal_server_error | Some j \<Rightarrow> Response code (Some (JSON j)))"

fun exception_handler :: "exception \<Rightarrow> Response" where
  "exception_handler (HTTPException code msg) =
     Response code (Some (JSON (JObj [(''detail'', JStr msg)])))"
| "exception_handler OverflowError = internal_server_error"

subsection \<open>Routes, the request body already parsed\<close>

definition route_get_all_items :: "db \<Rightarrow> Response \<times> db" where
  "route_get_all_items rows =
     (case get_all_items rows of
        (items, rows') \<Rightarrow> (render 200 (map_option JArr (those (map ItemResponse items))), rows'))"

definition route_get_item :: "int \<Rightarrow> db \<Rightarrow> Response \<times> db" where
  "route_get_item item_id rows =
     (case get_item item_id rows of
        (Inl e, rows') \<Rightarrow> (exception_handler e, rows')
      | (Inr item, rows') \<Rightarrow> (render 200 (ItemResponse item), rows'))"

definition route_create_item :: "ItemCreate \<Rightarrow> db \<Rightarrow> Response \<times> db" where
  "route_create_item item rows =
     (case create_item item rows of
        (new_item, rows') \<Rightarrow> (render 201 (ItemResponse new_item), rows'))"

definition route_update_item :: "int \<Rightarrow> ItemCreate \<Rightarrow> db \<Rightarrow> Response \<times> db" where
  "route_update_item item_id item rows =
     (case update_item item_id item rows of
        (Inl e, rows') \<Rightarrow> (exception_handler e, rows')
      | (Inr db_item, rows') \<Rightarrow> (render 200 (ItemResponse db_item), rows'))"

definition route_delete_item :: "int \<Rightarrow> db \<Rightarrow> Response \<times> db" where
  "route_delete_item item_id rows =
     (case delete_item item_id rows of
        (Inl e, rows') \<Rightarrow> (exception_handler e, rows')
      | (Inr u, rows') \<Rightarrow> (Response 204 None, rows'))"

subsection \<open>Parsing the request body\<close>

text \<open>
  A JSON object is read into a dict, where the last of several equal keys wins. Keys other
  than the three fields are ignored.
\<close>

definition field :: "string \<Rightarrow> (string \<times> json) list \<Rightarrow> json option" where
  "field k fs = map_of (rev fs) k"

text \<open>
  The field types, outside strict mode, which \<open>ItemBase\<close> does not ask for. A \<open>str\<close> field
  takes a JSON string only. A \<open>float\<close> field takes a float as it is, NaN and the
  infinities among them, an int that \<open>float\<close> can convert, a boolean as 0 or 1, and a string
  that reads as a float.
\<close>

fun validate_str :: "json \<Rightarrow> string option" where
  "validate_str (JStr s) = Some s"
| "validate_str _ = None"

fun validate_float :: "json \<Rightarrow> pyfloat option" where
  "validate_float (JFloat x) = Some x"
| "validate_float (JInt i) = int_as_float i"
| "validate_float (JBool b) = Some (Finite (if b then 1 else 0))"
| "validate_float (JStr s) = str_as_float s"
| "validate_float _ = None"

text \<open>Each field gives its value or the location of the error.\<close>

definition validate_name :: "(string \<times> json) list \<Rightarrow> string list + string" where
  "validate_name fs =
     (case field ''name'' fs of
        None \<Rightarrow> Inl [''body'', ''name'']
      | Some v \<Rightarrow> (case validate_str v of None \<Rightarrow> Inl [''body'', ''name''] | Some s \<Rightarrow> Inr s))"

definition validate_description :: "(string \<times> json) list \<Rightarrow> string list + string option" where
  "validate_description fs =
     (case field ''description'' fs of
        None \<Rightarrow> Inr None
      | Some JNull \<Rightarrow> Inr None
      | Some v \<Rightarrow>
          (case validate_str v of None \<Rightarrow> Inl [''body'', ''description''] | Some s \<Rightarrow> Inr (Some s)))"

definition validate_price :: "(string \<times> json) list \<Rightarrow> string list + pyfloat" where
  "validate_price fs =
     (case field ''price'' fs of
        None \<Rightarrow> Inl [''body'', ''price'']
      | Some v \<Rightarrow>
          (case validate_float v of None \<Rightarrow> Inl [''body'', ''price''] | Some x \<Rightarrow> Inr x))"

fun errors_of :: "string list + 'a \<Rightarrow> string list list" where
  "errors_of (Inl loc) = [loc]"
| "errors_of (Inr v) = []"

definition ItemCreate_validate :: "json \<Rightarrow> string list list + ItemCreate" where
  "ItemCreate_validate b =
     (case b of
        JObj fs \<Rightarrow>
          (case (validate_name fs, validate_description fs, validate_price fs) of
             (Inr n, Inr d, Inr p) \<Rightarrow> Inr \<lparr>name = n, description = d, price = p\<rparr>
           | (n, d, p) \<Rightarrow> Inl (errors_of n @ errors_of d @ errors_of p))
      | _ \<Rightarrow> Inl [[''body'']])"

text \<open>The 422 response lists where the body failed; the messages are not modelled.\<close>

definition request_validation_error :: "string list list \<Rightarrow> Response" where
  "request_validation_error locs =
     Response 422
       (Some (JSON (JObj [(''detail'',
                           JArr (map (\<lambda>loc. JObj [(''loc'', JArr (map JStr loc))]) locs))])))"

subsection \<open>Requests with a raw JSON body\<close>

definition post_items :: "json \<Rightarrow> db \<Rightarrow> Response \<times> db" where
  "post_items b rows =
     (case ItemCreate_validate b of
        Inl locs \<Rightarrow> (request_validation_error locs, rows)
      | Inr item \<Rightarrow> route_create_item item rows)"

definition put_items :: "int \<Rightarrow> json \<Rightarrow> db \<Rightarrow> Response \<times> db" where
  "put_items item_id b rows =
     (case ItemCreate_validate b of
        Inl locs \<Rightarrow> (request_validation_error locs, rows)
      | Inr item \<Rightarrow> route_update_item item_id item rows)"

section \<open>Sequences of creates and deletes\<close>

datatype op = Create ItemCreate | Delete int

text \<open>The ids that the creates of a sequence of operations return, in order.\<close>

fun assigned_ids :: "op list \<Rightarrow> db \<Rightarrow> int list" where
  "assigned_ids [] rows = []"
| "assigned_ids (Create item # ops) rows =
     (case create_item item rows of
        (new_item, rows') \<Rightarrow> id_col new_item # assigned_ids ops rows')"
| "assigned_ids (Delete item_id # ops) rows = assigned_ids ops (snd (delete_item item_id rows))"

text \<open>No delete of the sequence asks for the id that is the largest in the table then.\<close>

fun spares_max_id :: "op list \<Rightarrow> db \<Rightarrow> bool" where
  "spares_max_id [] rows = True"
| "spares_max_id (Create item # ops) rows = spares_max_id ops (snd (create_item item rows))"
| "spares_max_id (Delete item_id # ops) rows =
     (max_id rows \<noteq> Some item_id \<and> spares_max_id ops (snd (delete_item item_id rows)))"

section \<open>Bodies that lack a field or give it another type\<close>

text \<open>
  Stated apart from the parser. The syntax of a number, as an automaton over its
  characters: digits, a point with a digit on at least one side, and an exponent.
\<close>

datatype number_state =
  Start | IntDigits | Point | Fraction | ExpMark | ExpSign | ExpDigits | Dead

definition number_step :: "char \<Rightarrow> number_state \<Rightarrow> number_state" where
  "number_step c q =
     (if is_digit c
      then (case q of
              Start \<Rightarrow> IntDigits | IntDigits \<Rightarrow> IntDigits
            | Point \<Rightarrow> Fraction | Fraction \<Rightarrow> Fraction
            | ExpMark \<Rightarrow> ExpDigits | ExpSign \<Rightarrow> ExpDigits | ExpDigits \<Rightarrow> ExpDigits
            | Dead \<Rightarrow> Dead)
      else if c = CHR ''.''
      then (case q of Start \<Rightarrow> Point | IntDigits \<Rightarrow> Fraction | _ \<Rightarrow> Dead)
      else if c = CHR ''e''
      then (case q of IntDigits \<Rightarrow> ExpMark | Fraction \<Rightarrow> ExpMark | _ \<Rightarrow> Dead)
      else if c = CHR ''+'' \<or> c = CHR ''-''
      then (case q of ExpMark \<Rightarrow> ExpSign | _ \<Rightarrow> Dead)
      else Dead)"

fun accepting :: "number_state \<Rightarrow> bool" where
  "accepting IntDigits = True"
| "accepting Fraction = True"
| "accepting ExpDigits = True"
| "accepting q = False"

definition number_syntax :: "string \<Rightarrow> bool" where
  "number_syntax u = accepting (fold number_step u Start)"

definition float_syntax :: "string \<Rightarrow> bool" where
  "float_syntax t =
     (case split_sign (map lower t) of
        (neg, u) \<Rightarrow> u = ''inf'' \<or> u = ''infinity'' \<or> u = ''nan'' \<or> number_syntax u)"

definition reads_as_float :: "string \<Rightarrow> bool" where
  "reads_as_float s =
     (float_syntax (trim s)
      \<or> (case strip_underscores s of None \<Rightarrow> False | Some s' \<Rightarrow> float_syntax s'))"

text \<open>
  A \<open>name\<close> has to be a JSON string. A \<open>price\<close> of another type than a number is null, an
  array, an object, or a string that does not read as a float; a boolean is taken as a
  number.
\<close>

definition is_string :: "json \<Rightarrow> bool" where
  "is_string v = (case v of JStr s \<Rightarrow> True | _ \<Rightarrow> False)"

definition not_a_float :: "json \<Rightarrow> bool" where
  "not_a_float v =
     (case v of
        JNull \<Rightarrow> True
      | JArr vs \<Rightarrow> True
      | JObj fs \<Rightarrow> True
      | JStr s \<Rightarrow> \<not> reads_as_float s
      | _ \<Rightarrow> False)"

definition name_missing_or_mistyped :: "(string \<times> json) list \<Rightarrow> bool" where
  "name_missing_or_mistyped fs =
     (case field ''name'' fs of None \<Rightarrow> True | Some v \<Rightarrow> \<not> is_string v)"

definition price_missing_or_mistyped :: "(string \<times> json) list \<Rightarrow> bool" where
  "price_missing_or_mistyped fs =
     (case field ''price'' fs of None \<Rightarrow> True | Some v \<Rightarrow> not_a_float v)"

definition body_missing_or_mistyped :: "json \<Rightarrow> bool" where
  "body_missing_or_mistyped b =
     (case b of
        JObj fs \<Rightarrow> name_missing_or_mistyped fs \<or> price_missing_or_mistyped fs
      | _ \<Rightarrow> True)"

section \<open>Facts about floats\<close>

lemmas double_defs = float_lit_def to_double_def nearest_double_def floor_log2_def bitlen.simps
  Let_def round_half_even_def pow2_def

lemma to_double_not_NaN: "to_double neg a b \<noteq> NaN"
  by (simp add: to_double_def split: option.splits)

lemma stored_float_lit [simp]: "stored_float (float_lit a b) = Some (float_lit a b)"
  using to_double_not_NaN [of False a b]
  by (cases "to_double False a b") (simp_all add: stored_float_def float_lit_def)

lemma stored_float_Some: "x \<noteq> NaN \<Longrightarrow> stored_float x = Some x"
  by (cases x) (simp_all add: stored_float_def)

text \<open>The doubles that the literals of the seed data and of the examples denote.\<close>

lemma float_lit_1299_99: "float_lit 129999 100 = Finite (5717416483970089 / 2 ^ 42)"
  by (simp add: double_defs)

lemma float_lit_899_99: "float_lit 89999 100 = Finite (3958197879528489 / 2 ^ 42)"
  by (simp add: double_defs)

lemma float_lit_249_99: "float_lit 24999 100 = Finite (1099467647310889 / 2 ^ 42)"
  by (simp add: double_defs)

lemma float_lit_29_99: "float_lit 2999 100 = Finite (8441434551552573 / 2 ^ 48)"
  by (simp add: double_defs)

lemmas float_lits = float_lit_1299_99 float_lit_899_99 float_lit_249_99 float_lit_29_99

section \<open>The parser reads exactly the strings of the float syntax\<close>

lemma not_digit_chars [simp]:
  "\<not> is_digit CHR ''.''" "\<not> is_digit CHR ''e''" "\<not> is_digit CHR ''+''" "\<not> is_digit CHR ''-''"
  by (simp_all add: is_digit_def)

lemma step_Start:
  "number_step c Start = (if is_digit c then IntDigits else if c = CHR ''.'' then Point else Dead)"
  by (simp add: number_step_def)

lemma step_IntDigits:
  "number_step c IntDigits =
     (if is_digit c then IntDigits else if c = CHR ''.'' then Fraction
      else if c = CHR ''e'' then ExpMark else Dead)"
  by (simp add: number_step_def)

lemma step_Point: "number_step c Point = (if is_digit c then Fraction else Dead)"
  by (simp add: number_step_def)

lemma step_Fraction:
  "number_step c Fraction =
     (if is_digit c then Fraction else if c = CHR ''e'' then ExpMark else Dead)"
  by (simp add: number_step_def)

lemma step_ExpMark:
  "number_step c ExpMark =
     (if is_digit c then ExpDigits else if c = CHR ''+'' \<or> c = CHR ''-'' then ExpSign else Dead)"
  by (simp add: number_step_def)

lemma step_ExpSign: "number_step c ExpSign = (if is_digit c then ExpDigits else Dead)"
  by (simp add: number_step_def)

lemma step_ExpDigits: "number_step c ExpDigits = (if is_digit c then ExpDigits else Dead)"
  by (simp add: number_step_def)

lemma step_Dead: "number_step c Dead = Dead"
  by (simp add: number_step_def)

lemmas steps = step_Start step_IntDigits step_Point step_Fraction step_ExpMark step_ExpSign
  step_ExpDigits step_Dead

lemma fold_dead [simp]: "fold number_step u Dead = Dead"
  by (induction u) (simp_all add: step_Dead)

lemma digit_zero: "is_digit CHR ''0''"
  by (simp add: is_digit_def)

lemma digit_step: "is_digit c \<Longrightarrow> number_step c q = number_step CHR ''0'' q"
  by (cases q) (simp_all add: steps digit_zero)

lemma digit_step_twice: "number_step CHR ''0'' (number_step CHR ''0'' q) = number_step CHR ''0'' q"
  by (cases q) (simp_all add: steps digit_zero)

lemma fold_digits:
  "list_all is_digit ds \<Longrightarrow>
     fold number_step ds q = (if ds = [] then q else number_step CHR ''0'' q)"
proof (induction ds arbitrary: q)
  case Nil
  then show ?case by simp
next
  case (Cons c ds)
  then have c: "is_digit c" and ds: "list_all is_digit ds" by simp_all
  show ?case using Cons.IH [OF ds, of "number_step c q"] digit_step [OF c, of q]
    by (simp add: digit_step_twice)
qed

lemma accept_exp_digits: "accepting (fold number_step ds ExpDigits) \<longleftrightarrow> list_all is_digit ds"
proof (induction ds)
  case Nil
  then show ?case by simp
next
  case (Cons c ds)
  then show ?case by (cases "is_digit c") (simp_all add: steps)
qed

lemma accept_exp_sign:
  "accepting (fold number_step ds ExpSign) \<longleftrightarrow> ds \<noteq> [] \<and> list_all is_digit ds"
proof (cases ds)
  case Nil
  then show ?thesis by simp
next
  case (Cons c r)
  then show ?thesis
    using accept_exp_digits [of r] by (cases "is_digit c") (simp_all add: steps)
qed

lemma accept_exp_mark:
  "accepting (fold number_step r ExpMark) \<longleftrightarrow>
     (case split_sign r of (neg, ds) \<Rightarrow> ds \<noteq> [] \<and> list_all is_digit ds)"
proof (cases r)
  case Nil
  then show ?thesis by simp
next
  case (Cons d r')
  show ?thesis
  proof (cases "d = CHR ''-'' \<or> d = CHR ''+''")
    case True
    then show ?thesis using Cons accept_exp_sign [of r'] by (auto simp: steps)
  next
    case False
    then show ?thesis
      using Cons accept_exp_digits [of r'] by (cases "is_digit d") (auto simp: steps)
  qed
qed

lemma parse_exp_syntax:
  assumes "q = IntDigits \<or> q = Fraction"
    and "r = [] \<or> (\<not> is_digit (hd r) \<and> (q = IntDigits \<longrightarrow> hd r \<noteq> CHR ''.''))"
  shows "accepting (fold number_step r q) \<longleftrightarrow> parse_exp r \<noteq> None"
proof (cases r)
  case Nil
  then show ?thesis using assms(1) by auto
next
  case (Cons c r')
  then have c: "\<not> is_digit c" and dot: "q = IntDigits \<longrightarrow> c \<noteq> CHR ''.''"
    using assms(2) by simp_all
  show ?thesis
  proof (cases "c = CHR ''e''")
    case True
    then have "fold number_step r q = fold number_step r' ExpMark"
      using Cons assms(1) by (auto simp: steps)
    then show ?thesis
      using True Cons accept_exp_mark [of r'] by (auto split: prod.splits)
  next
    case False
    then have "number_step c q = Dead"
      using c dot assms(1) by (auto simp: steps)
    then show ?thesis using False Cons by simp
  qed
qed

lemma fold_digits_Start:
  "list_all is_digit ds \<Longrightarrow> fold number_step ds Start = (if ds = [] then Start else IntDigits)"
  using fold_digits [of ds Start] by (simp add: steps digit_zero)

lemma fold_digits_after_point:
  "list_all is_digit ds \<Longrightarrow> q = Point \<or> q = Fraction \<Longrightarrow>
     fold number_step ds q = (if ds = [] then q else Fraction)"
  using fold_digits [of ds q] by (auto simp: steps digit_zero)

lemma dropWhile_head: "dropWhile P u = c # r \<Longrightarrow> \<not> P c"
  by (metis hd_dropWhile list.distinct(1) list.sel(1))

lemma takeWhile_all: "list_all P (takeWhile P u)"
  by (induction u) simp_all

lemma number_syntax_parse: "number_syntax u \<longleftrightarrow> parse_number u \<noteq> None"
proof -
  define ip where "ip = takeWhile is_digit u"
  define r1 where "r1 = dropWhile is_digit u"
  have pn: "parse_number u =
     (case r1 of
        [] \<Rightarrow> if ip = [] then None else Some (digits_value ip, 0)
      | c # r \<Rightarrow>
          if c = CHR ''.''
          then (if ip = [] \<and> takeWhile is_digit r = [] then None
                else map_option (\<lambda>x. (digits_value (ip @ takeWhile is_digit r),
                                        x - int (length (takeWhile is_digit r))))
                       (parse_exp (dropWhile is_digit r)))
          else if ip = [] then None
          else map_option (\<lambda>x. (digits_value ip, x)) (parse_exp r1))"
    unfolding parse_number_def Let_def ip_def r1_def by (rule refl)
  have u: "u = ip @ r1" by (simp add: ip_def r1_def)
  have s1: "fold number_step ip Start = (if ip = [] then Start else IntDigits)"
    unfolding ip_def by (rule fold_digits_Start) (rule takeWhile_all)
  have run: "fold number_step u Start = fold number_step r1 (if ip = [] then Start else IntDigits)"
    by (simp only: u fold_append o_apply s1)
  have hd1: "r1 = [] \<or> \<not> is_digit (hd r1)"
    unfolding r1_def by (metis hd_dropWhile)
  show ?thesis
  proof (cases r1)
    case Nil
    then show ?thesis by (simp add: number_syntax_def run pn)
  next
    case (Cons c r)
    then have c: "\<not> is_digit c" using hd1 by simp
    show ?thesis
    proof (cases "c = CHR ''.''")
      case True
      define fp where "fp = takeWhile is_digit r"
      define r2 where "r2 = dropWhile is_digit r"
      have r: "r = fp @ r2" by (simp add: fp_def r2_def)
      have pn2: "parse_number u =
          (if ip = [] \<and> fp = [] then None
           else map_option (\<lambda>x. (digits_value (ip @ fp), x - int (length fp))) (parse_exp r2))"
        by (simp add: pn Cons True fp_def r2_def)
      have step: "fold number_step r1 (if ip = [] then Start else IntDigits)
                    = fold number_step r (if ip = [] then Point else Fraction)"
        by (simp add: Cons True steps)
      have s3: "fold number_step fp (if ip = [] then Point else Fraction)
                  = (if ip = [] \<and> fp = [] then Point else Fraction)"
        using fold_digits_after_point [of fp "if ip = [] then Point else Fraction"]
        unfolding fp_def by (auto simp: takeWhile_all)
      have run2: "fold number_step u Start
                    = fold number_step r2 (if ip = [] \<and> fp = [] then Point else Fraction)"
        by (simp only: run step r fold_append o_apply s3)
      have hd2: "r2 = [] \<or> \<not> is_digit (hd r2)"
        unfolding r2_def by (metis hd_dropWhile)
      show ?thesis
      proof (cases "ip = [] \<and> fp = []")
        case both: True
        have "\<not> accepting (fold number_step r2 Point)"
        proof (cases r2)
          case Nil
          then show ?thesis by simp
        next
          case (Cons c2 r3)
          then have "\<not> is_digit c2" using hd2 by simp
          then show ?thesis using Cons by (simp add: steps)
        qed
        then show ?thesis using both by (simp add: number_syntax_def run2 pn2)
      next
        case False
        have "accepting (fold number_step r2 Fraction) \<longleftrightarrow> parse_exp r2 \<noteq> None"
          using parse_exp_syntax [of Fraction r2] hd2 by simp
        then show ?thesis using False by (auto simp: number_syntax_def run2 pn2)
      qed
    next
      case False
      have pn3: "parse_number u =
                   (if ip = [] then None else map_option (\<lambda>x. (digits_value ip, x)) (parse_exp r1))"
        by (simp add: pn Cons False)
      show ?thesis
      proof (cases "ip = []")
        case True
        have "number_step c Start = Dead" using c False by (simp add: steps)
        then show ?thesis using True Cons by (simp add: number_syntax_def run pn3)
      next
        case ne: False
        have "accepting (fold number_step r1 IntDigits) \<longleftrightarrow> parse_exp r1 \<noteq> None"
          using parse_exp_syntax [of IntDigits r1] Cons c False by simp
        then show ?thesis using ne by (auto simp: number_syntax_def run pn3)
      qed
    qed
  qed
qed

lemma float_syntax_parse: "float_syntax t \<longleftrightarrow> parse_float t \<noteq> None"
  using number_syntax_parse
  by (auto simp: float_syntax_def parse_float_def split: prod.splits)

lemma reads_as_float_iff: "reads_as_float s \<longleftrightarrow> str_as_float s \<noteq> None"
  by (auto simp: reads_as_float_def str_as_float_def float_syntax_parse split: option.splits)

lemma validate_float_None: "not_a_float v \<Longrightarrow> validate_float v = None"
  by (cases v) (simp_all add: not_a_float_def reads_as_float_iff)

section \<open>Facts about the session operations\<close>

lemma max_id_Max: "max_id rows = (if rows = [] then None else Some (Max (id_col ` set rows)))"
proof (cases rows)
  case Nil
  then show ?thesis by (simp add: max_id_def)
next
  case (Cons r rs)
  have "Max (set (map id_col (r # rs))) = fold max (map id_col rs) (id_col r)"
    using Max.set_eq_fold [of "id_col r" "map id_col rs"] by simp
  with Cons show ?thesis by (simp add: max_id_def)
qed

lemma next_id_greater: "r \<in> set rows \<Longrightarrow> id_col r < next_id rows"
proof -
  assume r: "r \<in> set rows"
  then have "rows \<noteq> []" by auto
  moreover have "id_col r \<le> Max (id_col ` set rows)" using r by simp
  ultimately show ?thesis by (simp add: next_id_def max_id_Max)
qed

lemma find_id_None: "find (\<lambda>r. id_col r = i) rows = None \<longleftrightarrow> i \<notin> id_col ` set rows"
  by (auto simp: find_None_iff)

lemma find_id_Some: "find (\<lambda>r. id_col r = i) rows = Some r \<Longrightarrow> r \<in> set rows \<and> id_col r = i"
  by (auto simp: find_Some_iff)

lemma query_first_overflow: "\<not> int64 i \<Longrightarrow> query_first i rows = Inl OverflowError"
  by (simp add: query_first_def)

lemma query_first_absent:
  "int64 i \<Longrightarrow> i \<notin> id_col ` set rows \<Longrightarrow> query_first i rows = Inr None"
  by (simp add: query_first_def find_id_None)

lemma query_first_present:
  assumes "int64 i" and "i \<in> id_col ` set rows"
  shows "\<exists>r. query_first i rows = Inr (Some r) \<and> r \<in> set rows \<and> id_col r = i"
proof (cases "find (\<lambda>r. id_col r = i) rows")
  case None
  then show ?thesis using assms(2) by (simp add: find_id_None)
next
  case (Some r)
  then show ?thesis using assms(1) find_id_Some [OF Some] by (simp add: query_first_def)
qed

lemma max_id_append_next:
  "id_col r = next_id rows \<Longrightarrow> max_id (rows @ [r]) = Some (next_id rows)"
proof -
  assume n: "id_col r = next_id rows"
  show ?thesis
  proof (cases "rows = []")
    case True
    with n show ?thesis by (simp add: max_id_def)
  next
    case False
    have "\<forall>x \<in> id_col ` set rows. x \<le> next_id rows"
      using next_id_greater by fastforce
    then have "Max (insert (next_id rows) (id_col ` set rows)) = next_id rows"
      using False by (intro Max_eqI) auto
    with n show ?thesis by (simp add: max_id_Max)
  qed
qed

lemma max_id_filter:
  assumes "max_id rows \<noteq> Some item_id"
  shows "max_id (filter (\<lambda>r. id_col r \<noteq> item_id) rows) = max_id rows"
proof (cases "rows = []")
  case True
  then show ?thesis by simp
next
  case False
  let ?M = "id_col ` set rows"
  have fin: "finite ?M" and ne: "?M \<noteq> {}" using False by auto
  have neq: "Max ?M \<noteq> item_id" using assms False by (simp add: max_id_Max)
  have img: "id_col ` set (filter (\<lambda>r. id_col r \<noteq> item_id) rows) = ?M - {item_id}"
    by auto
  have mem: "Max ?M \<in> ?M - {item_id}" using Max_in [OF fin ne] neq by simp
  have mx: "Max (?M - {item_id}) = Max ?M"
    using mem fin by (intro Max_eqI) auto
  have ne': "filter (\<lambda>r. id_col r \<noteq> item_id) rows \<noteq> []"
    using mem img by (metis empty_iff image_empty list.set(1))
  have "max_id (filter (\<lambda>r. id_col r \<noteq> item_id) rows)
          = Some (Max (id_col ` set (filter (\<lambda>r. id_col r \<noteq> item_id) rows)))"
    using ne' by (simp only: max_id_Max if_False)
  also have "\<dots> = Some (Max (?M - {item_id}))" by (simp only: img)
  also have "\<dots> = Some (Max ?M)" by (simp only: mx)
  also have "\<dots> = max_id rows" using False by (simp add: max_id_Max)
  finally show ?thesis .
qed

lemma delete_item_rows:
  "snd (delete_item item_id rows) =
     (if int64 item_id then filter (\<lambda>r. id_col r \<noteq> item_id) rows else rows)"
proof (cases "int64 item_id")
  case False
  then show ?thesis by (simp add: delete_item_def query_first_def)
next
  case True
  show ?thesis
  proof (cases "find (\<lambda>r. id_col r = item_id) rows")
    case None
    then have "item_id \<notin> id_col ` set rows" by (simp add: find_id_None)
    then have "filter (\<lambda>r. id_col r \<noteq> item_id) rows = rows"
      by (auto simp: filter_id_conv)
    with None True show ?thesis by (simp add: delete_item_def query_first_def)
  next
    case (Some r)
    then show ?thesis
      using True find_id_Some [OF Some]
      by (simp add: delete_item_def query_first_def delete_commit_def)
  qed
qed

lemma next_id_after_delete:
  assumes "max_id rows \<noteq> Some item_id"
  shows "next_id (snd (delete_item item_id rows)) = next_id rows"
  using max_id_filter [OF assms] by (simp add: delete_item_rows next_id_def)

lemma assigned_ids_increasing:
  "spares_max_id ops rows \<Longrightarrow>
     sorted_wrt (<) (assigned_ids ops rows) \<and> (\<forall>i \<in> set (assigned_ids ops rows). next_id rows \<le> i)"
proof (induction ops arbitrary: rows)
  case Nil
  then show ?case by simp
next
  case (Cons x ops)
  show ?case
  proof (cases x)
    case (Create item)
    let ?new = "fst (create_item item rows)"
    let ?rows' = "snd (create_item item rows)"
    have id: "id_col ?new = next_id rows" by (simp add: create_item_def add_commit_def Let_def)
    have rows': "?rows' = rows @ [?new]" by (simp add: create_item_def add_commit_def Let_def)
    have nxt: "next_id ?rows' = next_id rows + 1"
      using max_id_append_next [OF id] by (simp add: rows' next_id_def)
    have sp: "spares_max_id ops ?rows'" using Cons.prems Create by simp
    have ih: "sorted_wrt (<) (assigned_ids ops ?rows')
                \<and> (\<forall>i \<in> set (assigned_ids ops ?rows'). next_id rows + 1 \<le> i)"
      using Cons.IH [OF sp] nxt by simp
    have eq: "assigned_ids (x # ops) rows = next_id rows # assigned_ids ops ?rows'"
      using Create id by (simp add: case_prod_beta)
    show ?thesis using ih by (auto simp: eq)
  next
    case (Delete item_id)
    let ?rows' = "snd (delete_item item_id rows)"
    have m: "max_id rows \<noteq> Some item_id" and sp: "spares_max_id ops ?rows'"
      using Cons.prems Delete by simp_all
    show ?thesis using Cons.IH [OF sp] Delete next_id_after_delete [OF m] by simp
  qed
qed

lemma find_after_none: "find P xs = None \<Longrightarrow> find P (xs @ ys) = find P ys"
  by (induction xs) (auto split: if_splits)

lemma set_attrs_row:
  "set_attrs item r =
     \<lparr>id_col = id_col r, name_col = name item, description_col = description item,
      price_col = stored_float (price item)\<rparr>"
  by (simp add: set_attrs_def)

lemma find_update_commit:
  "find (\<lambda>r. id_col r = i) (update_commit d item rows) =
     map_option (\<lambda>r. if id_col r = id_col d then set_attrs item r else r)
       (find (\<lambda>r. id_col r = i) rows)"
  by (induction rows) (simp_all add: update_commit_def set_attrs_def)

lemma startup_rows:
  "startup =
     [\<lparr>id_col = 1, name_col = ''Laptop'',
       description_col = Some ''A powerful laptop for development'',
       price_col = Some (float_lit 129999 100)\<rparr>,
      \<lparr>id_col = 2, name_col = ''Smartphone'',
       description_col = Some ''Latest smartphone model'',
       price_col = Some (float_lit 89999 100)\<rparr>,
      \<lparr>id_col = 3, name_col = ''Headphones'',
       description_col = Some ''Noise-cancelling headphones'',
       price_col = Some (float_lit 24999 100)\<rparr>]"
  by (simp add: startup_def seed_data_def sample_items_def add_commit_def Let_def next_id_def
      max_id_def)

lemmas run_defs = create_item_def add_commit_def Let_def next_id_def max_id_def
  delete_item_def delete_commit_def query_first_def int64_def

lemmas route_defs = route_get_all_items_def route_get_item_def route_create_item_def
  route_update_item_def route_delete_item_def get_all_items_def get_item_def update_item_def
  update_commit_def set_attrs_def render_def ItemResponse_def float_json_def
  internal_server_error_def

lemmas body_defs = post_items_def put_items_def ItemCreate_validate_def validate_name_def
  validate_description_def validate_price_def field_def request_validation_error_def

lemmas read_defs = str_as_float_def parse_float_def trim_def drop_spaces.simps space_at_def whitespace_def lower_def
  parse_number_def is_digit_def digits_value_def scaled_def strip_underscores_def

text \<open>The decimal rendering of a natural number has the digits of that number.\<close>

lemma digit_value: "k < 10 \<Longrightarrow> is_digit (''0123456789'' ! k) \<and> digits_value [''0123456789'' ! k] = k"
proof -
  assume "k < 10"
  then have "k = 0 \<or> k = 1 \<or> k = 2 \<or> k = 3 \<or> k = 4 \<or> k = 5 \<or> k = 6 \<or> k = 7 \<or> k = 8 \<or> k = 9"
    by presburger
  then show ?thesis by (elim disjE) (simp_all add: is_digit_def digits_value_def)
qed

lemma digits_value_snoc: "digits_value (ds @ [c]) = 10 * digits_value ds + digits_value [c]"
  by (simp add: digits_value_def)

lemma str_nat_reads_back: "list_all is_digit (str_nat n) \<and> digits_value (str_nat n) = n"
proof (induction n rule: str_nat.induct)
  case (1 n)
  show ?case
  proof (cases "n < 10")
    case True
    then show ?thesis using digit_value [of n] by (subst (1 2) str_nat.simps) simp
  next
    case False
    then have ih: "list_all is_digit (str_nat (n div 10))
                   \<and> digits_value (str_nat (n div 10)) = n div 10"
      using 1 by simp
    have "n mod 10 < 10" by simp
    then show ?thesis
      using False ih digit_value [of "n mod 10"]
      by (subst (1 2) str_nat.simps) (simp add: digits_value_snoc)
  qed
qed

section \<open>What the operations do on every input\<close>

text \<open>
  \<open>create_item\<close> stores and returns the row of the next id; the price it holds is the
  request's unless that is NaN. The route answers 201 with the row unless its price is
  NULL, and 500 then.
\<close>

lemma create_item_row:
  "create_item item rows =
     (\<lparr>id_col = (case rows of [] \<Rightarrow> 1 | r # rs \<Rightarrow> Max (id_col ` set rows) + 1),
       name_col = name item, description_col = description item,
       price_col = stored_float (price item)\<rparr>,
      rows @ [\<lparr>id_col = (case rows of [] \<Rightarrow> 1 | r # rs \<Rightarrow> Max (id_col ` set rows) + 1),
               name_col = name item, description_col = description item,
               price_col = stored_float (price item)\<rparr>])"
  by (cases rows) (simp_all add: create_item_def add_commit_def Let_def next_id_def max_id_Max)

lemma route_create_item_response:
  "route_create_item item rows =
     (render 201 (ItemResponse (fst (create_item item rows))), snd (create_item item rows))"
  by (simp add: route_create_item_def split: prod.splits)

lemma route_create_item_status:
  "status (fst (route_create_item item rows)) = (if price item = NaN then 500 else 201)"
  by (cases "price item")
     (simp_all add: route_create_item_def create_item_def add_commit_def Let_def render_def
        ItemResponse_def stored_float_def internal_server_error_def)

text \<open>An id within 64 bits that no row has: 404 from all three, and the table as it was.\<close>

lemma absent_id_not_found:
  assumes "int64 item_id" and "item_id \<notin> id_col ` set rows"
  shows "get_item item_id rows = (Inl (not_found item_id), rows)
       \<and> update_item item_id item rows = (Inl (not_found item_id), rows)
       \<and> delete_item item_id rows = (Inl (not_found item_id), rows)"
  using query_first_absent [OF assms]
  by (simp add: get_item_def update_item_def delete_item_def)

lemma absent_id_404:
  assumes "int64 item_id" and "item_id \<notin> id_col ` set rows"
  shows "route_get_item item_id rows =
           (Response 404 (Some (JSON (JObj [(''detail'',
              JStr (''Item with ID '' @ str_int item_id @ '' not found''))]))), rows)
       \<and> route_update_item item_id item rows =
           (Response 404 (Some (JSON (JObj [(''detail'',
              JStr (''Item with ID '' @ str_int item_id @ '' not found''))]))), rows)
       \<and> route_delete_item item_id rows =
           (Response 404 (Some (JSON (JObj [(''detail'',
              JStr (''Item with ID '' @ str_int item_id @ '' not found''))]))), rows)"
  using absent_id_not_found [OF assms]
  by (simp add: route_get_item_def route_update_item_def route_delete_item_def not_found_def)

text \<open>An id beyond 64 bits: the driver's error from all three, answered 500.\<close>

lemma unbound_id_overflow:
  assumes "\<not> int64 item_id"
  shows "get_item item_id rows = (Inl OverflowError, rows)
       \<and> update_item item_id item rows = (Inl OverflowError, rows)
       \<and> delete_item item_id rows = (Inl OverflowError, rows)"
  using query_first_overflow [OF assms]
  by (simp add: get_item_def update_item_def delete_item_def)

text \<open>
  \<open>update_item\<close> on an id that a row has: the row keeps its id and takes the request's
  name and description, and its price unless that is NaN; the other rows stay.
\<close>

lemma update_item_present:
  assumes "int64 item_id" and "item_id \<in> id_col ` set rows"
  shows "update_item item_id item rows =
           (Inr \<lparr>id_col = item_id, name_col = name item, description_col = description item,
                  price_col = stored_float (price item)\<rparr>,
            map (\<lambda>r. if id_col r = item_id
                      then \<lparr>id_col = item_id, name_col = name item,
                            description_col = description item,
                            price_col = stored_float (price item)\<rparr>
                      else r) rows)
       \<and> get_item item_id (snd (update_item item_id item rows)) =
           (Inr \<lparr>id_col = item_id, name_col = name item, description_col = description item,
                  price_col = stored_float (price item)\<rparr>,
            snd (update_item item_id item rows))"
proof -
  let ?u = "\<lparr>id_col = item_id, name_col = name item, description_col = description item,
              price_col = stored_float (price item)\<rparr>"
  obtain d where d: "query_first item_id rows = Inr (Some d)" and did: "id_col d = item_id"
    using query_first_present [OF assms] by blast
  have fd: "find (\<lambda>r. id_col r = item_id) rows = Some d"
    using d assms(1) by (simp add: query_first_def)
  have su: "set_attrs item d = ?u" by (simp add: set_attrs_row did)
  have rows': "update_commit d item rows = map (\<lambda>r. if id_col r = item_id then ?u else r) rows"
    by (simp add: update_commit_def did set_attrs_row cong: if_cong)
  have upd: "update_item item_id item rows =
               (Inr ?u, map (\<lambda>r. if id_col r = item_id then ?u else r) rows)"
    by (simp add: update_item_def d su rows')
  have "find (\<lambda>r. id_col r = item_id) (update_commit d item rows) = Some ?u"
    by (simp add: find_update_commit fd did su)
  then have "query_first item_id (update_commit d item rows) = Inr (Some ?u)"
    using assms(1) by (simp add: query_first_def)
  then have get: "get_item item_id (snd (update_item item_id item rows)) =
                    (Inr ?u, snd (update_item item_id item rows))"
    by (simp add: upd rows' [symmetric] get_item_def)
  show ?thesis using upd get by blast
qed

section \<open>The claims\<close>

subsection \<open>Creating\<close>

text \<open>
  C2 says that create succeeds for every request with a name and a price and returns the
  full record. A POST whose price is NaN, written \<open>NaN\<close> in the body or as the string
  \<open>"nan"\<close>, passes validation; the row is stored with a NULL price, does not validate as
  the response model, and the request is answered 500.
\<close>

theorem nan_price_create_answers_500:
  "post_items (JObj [(''name'', JStr ''Mouse''), (''price'', JFloat NaN)]) startup =
     (Response 500 (Some (PlainText ''Internal Server Error'')),
      startup @ [\<lparr>id_col = 4, name_col = ''Mouse'', description_col = None,
                  price_col = None\<rparr>])
   \<and> post_items (JObj [(''name'', JStr ''Mouse''), (''price'', JStr ''nan'')]) startup =
     (Response 500 (Some (PlainText ''Internal Server Error'')),
      startup @ [\<lparr>id_col = 4, name_col = ''Mouse'', description_col = None,
                  price_col = None\<rparr>])"
  by (simp add: body_defs read_defs route_defs stored_float_def startup_rows run_defs)

text \<open>
  C7. For every parsed request item and every table, \<open>get_item\<close> with the id that
  \<open>create_item\<close> returned gives back the very row \<open>create_item\<close> returned, and the two
  responses carry the same body: 200 after 201, and 500 after 500. Beyond the ids of
  64 bits, which the engine does not assign, the model's \<open>get_item\<close> raises the driver's
  error.
\<close>

theorem create_item_then_get_item:
  "get_item (id_col (fst (create_item item rows))) (snd (create_item item rows))
     = ((if int64 (id_col (fst (create_item item rows)))
         then Inr (fst (create_item item rows)) else Inl OverflowError),
        snd (create_item item rows))
   \<and> fst (route_get_item (id_col (fst (create_item item rows))) (snd (create_item item rows)))
     = (if int64 (id_col (fst (create_item item rows)))
           \<and> status (fst (route_create_item item rows)) = 201
        then Response 200 (body (fst (route_create_item item rows)))
        else internal_server_error)"
proof -
  let ?new = "\<lparr>id_col = next_id rows, name_col = name item,
                description_col = description item,
                price_col = stored_float (price item)\<rparr>"
  have c: "create_item item rows = (?new, rows @ [?new])"
    by (simp add: create_item_def add_commit_def Let_def)
  have "find (\<lambda>r. id_col r = next_id rows) rows = None"
    using next_id_greater by (fastforce simp: find_None_iff)
  then have f: "find (\<lambda>r. id_col r = next_id rows) (rows @ [?new]) = Some ?new"
    by (simp add: find_after_none)
  have g: "get_item (next_id rows) (rows @ [?new]) =
             ((if int64 (next_id rows) then Inr ?new else Inl OverflowError), rows @ [?new])"
    by (simp add: get_item_def query_first_def f)
  have r: "fst (route_get_item (next_id rows) (rows @ [?new])) =
             (if int64 (next_id rows) \<and> status (fst (route_create_item item rows)) = 201
              then Response 200 (body (fst (route_create_item item rows)))
              else internal_server_error)"
    by (cases "ItemResponse ?new")
       (simp_all add: route_get_item_def g route_create_item_def c render_def
          internal_server_error_def)
  show ?thesis using g r by (simp add: c)
qed

subsection \<open>The seeded table\<close>

text \<open>
  C3. Before any request has changed the table, GET /items answers 200 with exactly the
  three seeded items, ids 1, 2, 3 in the order of \<open>sample_items\<close>: Laptop at 1299.99,
  Smartphone at 899.99, Headphones at 249.99, each price the float that the literal
  denotes. The table is left as it was.
\<close>

theorem startup_lists_three_seeded_items:
  "route_get_all_items startup =
     (Response 200 (Some (JSON (JArr
        [JObj [(''name'', JStr ''Laptop''),
               (''description'', JStr ''A powerful laptop for development''),
               (''price'', JFloat (float_lit 129999 100)), (''id'', JInt 1)],
         JObj [(''name'', JStr ''Smartphone''),
               (''description'', JStr ''Latest smartphone model''),
               (''price'', JFloat (float_lit 89999 100)), (''id'', JInt 2)],
         JObj [(''name'', JStr ''Headphones''),
               (''description'', JStr ''Noise-cancelling headphones''),
               (''price'', JFloat (float_lit 24999 100)), (''id'', JInt 3)]]))),
      startup)"
  by (simp add: route_defs startup_rows float_lits)

subsection \<open>Ids that are not in the table\<close>

text \<open>
  C5 says that \<open>get\<close>, \<open>update\<close> and \<open>delete\<close> on an id that is not in the store return
  NotFound. For the id \<open>2 ^ 63\<close>, which no row has, each of the three raises the driver's
  OverflowError instead, from the query that looks the row up; the table is left as it
  was.
\<close>

theorem unbound_id_raises_overflow:
  "get_item 9223372036854775808 startup = (Inl OverflowError, startup)
   \<and> update_item 9223372036854775808
        \<lparr>name = ''Mouse'', description = None, price = float_lit 2999 100\<rparr> startup
       = (Inl OverflowError, startup)
   \<and> delete_item 9223372036854775808 startup = (Inl OverflowError, startup)
   \<and> 9223372036854775808 \<notin> id_col ` set startup"
  by (simp add: get_item_def update_item_def delete_item_def query_first_def int64_def
        startup_rows)

text \<open>
  C4 says that GET, PUT and DELETE /items/{id} answer 404 with the detail message for
  every id that is not in the store. For the id \<open>2 ^ 63\<close>, which no row has, all three
  answer 500: the driver's OverflowError is no \<open>HTTPException\<close>.
\<close>

theorem unbound_id_answers_500:
  "route_get_item 9223372036854775808 startup =
     (Response 500 (Some (PlainText ''Internal Server Error'')), startup)
   \<and> put_items 9223372036854775808
        (JObj [(''name'', JStr ''Mouse''), (''price'', JFloat (float_lit 2999 100))]) startup =
     (Response 500 (Some (PlainText ''Internal Server Error'')), startup)
   \<and> route_delete_item 9223372036854775808 startup =
     (Response 500 (Some (PlainText ''Internal Server Error'')), startup)"
  by (simp add: route_get_item_def route_update_item_def route_delete_item_def
        get_item_def update_item_def delete_item_def query_first_def int64_def
        internal_server_error_def body_defs)

subsection \<open>Updating\<close>

text \<open>
  C6 says that an update overwrites the price with the request's value, returns the
  updated record, and that a following get reflects the new values. A PUT on the seeded
  item 2 whose price is NaN stores a NULL price; the row does not validate as the response
  model, so the PUT and the following GET of the item are answered 500.
\<close>

theorem nan_price_update_answers_500:
  "put_items 2 (JObj [(''name'', JStr ''Tablet''), (''price'', JFloat NaN)]) startup =
     (Response 500 (Some (PlainText ''Internal Server Error'')),
      [\<lparr>id_col = 1, name_col = ''Laptop'',
        description_col = Some ''A powerful laptop for development'',
        price_col = Some (float_lit 129999 100)\<rparr>,
       \<lparr>id_col = 2, name_col = ''Tablet'', description_col = None, price_col = None\<rparr>,
       \<lparr>id_col = 3, name_col = ''Headphones'',
        description_col = Some ''Noise-cancelling headphones'',
        price_col = Some (float_lit 24999 100)\<rparr>])
   \<and> fst (route_get_item 2
        (snd (put_items 2 (JObj [(''name'', JStr ''Tablet''), (''price'', JFloat NaN)]) startup)))
       = Response 500 (Some (PlainText ''Internal Server Error''))"
  by (simp add: body_defs route_defs stored_float_def startup_rows query_first_def int64_def)

subsection \<open>Deleting\<close>

text \<open>
  C8. For every id that some row of the table has, an id the engine holds and so one of
  64 bits, DELETE /items/{id} answers 204 with an empty body and leaves the table without
  the rows of that id, the others in their order; a following \<open>get_item\<close> on the id raises
  the 404 exception; the following list has no item of that id; and no later update or
  delete brings the id back.
\<close>

theorem delete_item_removes_present:
  assumes "item_id \<in> id_col ` set rows" and "int64 item_id"
  shows "route_delete_item item_id rows =
           (Response 204 None, filter (\<lambda>r. id_col r \<noteq> item_id) rows)
       \<and> get_item item_id (snd (route_delete_item item_id rows)) =
           (Inl (not_found item_id), snd (route_delete_item item_id rows))
       \<and> item_id \<notin> id_col ` set (fst (get_all_items (snd (route_delete_item item_id rows))))
       \<and> item_id \<notin> id_col ` set (snd (update_item j item (snd (route_delete_item item_id rows))))
       \<and> item_id \<notin> id_col ` set (snd (delete_item j (snd (route_delete_item item_id rows))))"
proof -
  let ?rows' = "filter (\<lambda>r. id_col r \<noteq> item_id) rows"
  obtain d where d: "query_first item_id rows = Inr (Some d)" and did: "id_col d = item_id"
    using query_first_present [OF assms(2) assms(1)] by blast
  have del: "route_delete_item item_id rows = (Response 204 None, ?rows')"
    by (simp add: route_delete_item_def delete_item_def d delete_commit_def did)
  have absent: "item_id \<notin> id_col ` set ?rows'" by auto
  have get: "get_item item_id (snd (route_delete_item item_id rows)) =
           (Inl (not_found item_id), snd (route_delete_item item_id rows))"
    using absent_id_not_found [OF assms(2) absent] by (simp add: del)
  have "map id_col (snd (update_item j item ?rows')) = map id_col ?rows'"
    by (cases "query_first j ?rows'"; cases "projr (query_first j ?rows')")
       (simp_all add: update_item_def update_commit_def set_attrs_def o_def cong: map_cong)
  then have "id_col ` set (snd (update_item j item ?rows')) = id_col ` set ?rows'"
    by (metis set_map)
  then have upd: "item_id \<notin> id_col ` set (snd (update_item j item ?rows'))"
    using absent by simp
  have dl: "item_id \<notin> id_col ` set (snd (delete_item j ?rows'))"
    by (auto simp: delete_item_rows)
  show ?thesis using get absent upd dl by (simp add: del get_all_items_def)
qed

theorem delete_item_removes_present_witness:
  "(2::int) \<in> id_col ` set startup \<and> int64 2
   \<and> route_delete_item 2 startup =
       (Response 204 None,
        [\<lparr>id_col = 1, name_col = ''Laptop'',
          description_col = Some ''A powerful laptop for development'',
          price_col = Some (float_lit 129999 100)\<rparr>,
         \<lparr>id_col = 3, name_col = ''Headphones'',
          description_col = Some ''Noise-cancelling headphones'',
          price_col = Some (float_lit 24999 100)\<rparr>])
   \<and> get_item 2 (snd (route_delete_item 2 startup)) =
       (Inl (not_found 2), snd (route_delete_item 2 startup))"
proof -
  have h: "(2::int) \<in> id_col ` set startup" by (simp add: startup_rows)
  have i: "int64 2" by (simp add: int64_def)
  note t = delete_item_removes_present
             [OF h i, of 1 "\<lparr>name = ''Tablet'', description = None, price = Finite 499\<rparr>"]
  have r: "route_delete_item 2 startup =
       (Response 204 None,
        [\<lparr>id_col = 1, name_col = ''Laptop'',
          description_col = Some ''A powerful laptop for development'',
          price_col = Some (float_lit 129999 100)\<rparr>,
         \<lparr>id_col = 3, name_col = ''Headphones'',
          description_col = Some ''Noise-cancelling headphones'',
          price_col = Some (float_lit 24999 100)\<rparr>])"
    using t by (simp add: startup_rows)
  have g: "get_item 2 (snd (route_delete_item 2 startup)) =
             (Inl (not_found 2), snd (route_delete_item 2 startup))"
    using t by blast
  show ?thesis using h i r g by blast
qed

subsection \<open>Ids over a sequence of creates and deletes\<close>

text \<open>
  C1, as stated, fails: ids are strictly increasing over every sequence of creates and
  deletes, and a deleted id is never assigned again. On the seeded table the first create
  gets id 4; after that row is deleted, the next create gets id 4 again.
\<close>

theorem deleted_max_id_assigned_again:
  "assigned_ids [Create \<lparr>name = ''Mouse'', description = None, price = float_lit 2999 100\<rparr>,
                 Delete 4,
                 Create \<lparr>name = ''Keyboard'', description = None, price = float_lit 4999 100\<rparr>]
     startup
     = [4, 4]"
  by (simp add: startup_rows run_defs)

text \<open>
  C1, amended. Every create assigns an id larger than every id in the table at that
  moment. For every sequence of creates and deletes in which no delete asks for the id
  that is the largest in the table then, the ids assigned by the creates are strictly
  increasing, none is assigned twice, and each is larger than every id the table started
  with.
\<close>

theorem assigned_ids_increasing_while_max_id_spared:
  "(\<forall>r \<in> set rows. id_col r < id_col (fst (create_item item rows)))
   \<and> (spares_max_id ops rows \<longrightarrow>
        sorted_wrt (<) (assigned_ids ops rows) \<and> distinct (assigned_ids ops rows)
        \<and> (\<forall>i \<in> set (assigned_ids ops rows). \<forall>r \<in> set rows. id_col r < i))"
proof -
  have a: "\<forall>r \<in> set rows. id_col r < id_col (fst (create_item item rows))"
    using next_id_greater by (simp add: create_item_def add_commit_def Let_def)
  have b: "sorted_wrt (<) (assigned_ids ops rows) \<and> distinct (assigned_ids ops rows)
        \<and> (\<forall>i \<in> set (assigned_ids ops rows). \<forall>r \<in> set rows. id_col r < i)"
    if sp: "spares_max_id ops rows"
  proof -
    have s: "sorted_wrt (<) (assigned_ids ops rows)"
      and lb: "\<forall>i \<in> set (assigned_ids ops rows). next_id rows \<le> i"
      using assigned_ids_increasing [OF sp] by simp_all
    have d: "distinct (assigned_ids ops rows)"
      using s strict_sorted_iff by blast
    have "\<forall>i \<in> set (assigned_ids ops rows). \<forall>r \<in> set rows. id_col r < i"
      using lb next_id_greater by fastforce
    with s d show ?thesis by blast
  qed
  show ?thesis using a b by blast
qed

theorem assigned_ids_increasing_while_max_id_spared_witness:
  "spares_max_id
     [Create \<lparr>name = ''Mouse'', description = None, price = float_lit 2999 100\<rparr>,
      Create \<lparr>name = ''Keyboard'', description = None, price = float_lit 4999 100\<rparr>,
      Delete 4,
      Create \<lparr>name = ''Monitor'', description = None, price = float_lit 19999 100\<rparr>] startup
   \<and> assigned_ids
     [Create \<lparr>name = ''Mouse'', description = None, price = float_lit 2999 100\<rparr>,
      Create \<lparr>name = ''Keyboard'', description = None, price = float_lit 4999 100\<rparr>,
      Delete 4,
      Create \<lparr>name = ''Monitor'', description = None, price = float_lit 19999 100\<rparr>] startup
       = [4, 5, 6]
   \<and> sorted_wrt (<) (assigned_ids
     [Create \<lparr>name = ''Mouse'', description = None, price = float_lit 2999 100\<rparr>,
      Create \<lparr>name = ''Keyboard'', description = None, price = float_lit 4999 100\<rparr>,
      Delete 4,
      Create \<lparr>name = ''Monitor'', description = None, price = float_lit 19999 100\<rparr>] startup)
   \<and> distinct (assigned_ids
     [Create \<lparr>name = ''Mouse'', description = None, price = float_lit 2999 100\<rparr>,
      Create \<lparr>name = ''Keyboard'', description = None, price = float_lit 4999 100\<rparr>,
      Delete 4,
      Create \<lparr>name = ''Monitor'', description = None, price = float_lit 19999 100\<rparr>] startup)"
proof -
  let ?ops = "[Create \<lparr>name = ''Mouse'', description = None, price = float_lit 2999 100\<rparr>,
               Create \<lparr>name = ''Keyboard'', description = None, price = float_lit 4999 100\<rparr>,
               Delete 4,
               Create \<lparr>name = ''Monitor'', description = None, price = float_lit 19999 100\<rparr>]"
  have h: "spares_max_id ?ops startup" by (simp add: startup_rows run_defs)
  have v: "assigned_ids ?ops startup = [4, 5, 6]" by (simp add: startup_rows run_defs)
  show ?thesis
    using assigned_ids_increasing_while_max_id_spared
            [of startup "\<lparr>name = ''Mouse'', description = None, price = float_lit 2999 100\<rparr>" ?ops]
          h v
    by blast
qed

subsection \<open>Bodies that do not parse\<close>

text \<open>
  C9, as stated, fails: a body that gives \<open>price\<close> another type than a number is rejected
  with 422 and changes nothing. A \<open>float\<close> field reads a string and takes a boolean: a POST
  whose \<open>price\<close> is the JSON string \<open>"29.99"\<close> is answered 201 and the item is stored with
  the price 29.99, and one whose \<open>price\<close> is \<open>true\<close> is answered 201 and stored with the
  price 1.
\<close>

theorem string_price_accepted:
  "post_items (JObj [(''name'', JStr ''Mouse''), (''price'', JStr ''29.99'')]) startup
     = (Response 201
          (Some (JSON (JObj [(''name'', JStr ''Mouse''), (''description'', JNull),
                             (''price'', JFloat (float_lit 2999 100)), (''id'', JInt 4)]))),
        startup @ [\<lparr>id_col = 4, name_col = ''Mouse'', description_col = None,
                    price_col = Some (float_lit 2999 100)\<rparr>])
   \<and> post_items (JObj [(''name'', JStr ''Mouse''), (''price'', JBool True)]) startup
     = (Response 201
          (Some (JSON (JObj [(''name'', JStr ''Mouse''), (''description'', JNull),
                             (''price'', JFloat (Finite 1)), (''id'', JInt 4)]))),
        startup @ [\<lparr>id_col = 4, name_col = ''Mouse'', description_col = None,
                    price_col = Some (Finite 1)\<rparr>])"
  by (simp add: body_defs read_defs route_defs startup_rows run_defs float_lits
        stored_float_def to_double_def nearest_double_def floor_log2_def bitlen.simps
        round_half_even_def pow2_def)

text \<open>
  C9, amended. A POST /items or PUT /items/{id} whose body is no JSON object, has no
  \<open>name\<close> or no \<open>price\<close>, gives \<open>name\<close> a value that is not a string, or gives \<open>price\<close> null,
  an array, an object or a string that does not have the syntax of a float, is answered
  with status 422 and the table is left as it was.
\<close>

theorem missing_or_mistyped_body_rejected:
  assumes "body_missing_or_mistyped b"
  shows "status (fst (post_items b rows)) = 422 \<and> snd (post_items b rows) = rows
       \<and> status (fst (put_items item_id b rows)) = 422
       \<and> snd (put_items item_id b rows) = rows"
proof -
  have "\<exists>locs. ItemCreate_validate b = Inl locs"
  proof (cases b)
    case (JObj fs)
    then have "name_missing_or_mistyped fs \<or> price_missing_or_mistyped fs"
      using assms by (simp add: body_missing_or_mistyped_def)
    then have "(\<exists>loc. validate_name fs = Inl loc) \<or> (\<exists>loc. validate_price fs = Inl loc)"
    proof
      assume "name_missing_or_mistyped fs"
      then have "\<exists>loc. validate_name fs = Inl loc"
        by (cases "field ''name'' fs"; cases "the (field ''name'' fs)")
           (auto simp: name_missing_or_mistyped_def validate_name_def is_string_def)
      then show ?thesis ..
    next
      assume "price_missing_or_mistyped fs"
      then have "\<exists>loc. validate_price fs = Inl loc"
        using validate_float_None
        by (cases "field ''price'' fs")
           (auto simp: price_missing_or_mistyped_def validate_price_def)
      then show ?thesis ..
    qed
    then show ?thesis
      using JObj
      by (cases "validate_name fs"; cases "validate_description fs"; cases "validate_price fs")
         (auto simp: ItemCreate_validate_def)
  qed (simp_all add: ItemCreate_validate_def)
  then show ?thesis
    by (auto simp: post_items_def put_items_def request_validation_error_def)
qed

theorem missing_or_mistyped_body_rejected_witness:
  "body_missing_or_mistyped (JObj [(''name'', JStr ''Mouse''), (''price'', JStr ''cheap'')])
   \<and> status (fst (post_items
        (JObj [(''name'', JStr ''Mouse''), (''price'', JStr ''cheap'')]) startup)) = 422
   \<and> snd (post_items
        (JObj [(''name'', JStr ''Mouse''), (''price'', JStr ''cheap'')]) startup) = startup
   \<and> status (fst (put_items 2
        (JObj [(''name'', JStr ''Mouse''), (''price'', JStr ''cheap'')]) startup)) = 422
   \<and> snd (put_items 2
        (JObj [(''name'', JStr ''Mouse''), (''price'', JStr ''cheap'')]) startup) = startup
   \<and> body_missing_or_mistyped (JObj [(''name'', JStr ''Mouse''), (''price'', JNull)])
   \<and> status (fst (post_items
        (JObj [(''name'', JStr ''Mouse''), (''price'', JNull)]) startup)) = 422
   \<and> body_missing_or_mistyped (JObj [(''name'', JInt 5), (''price'', JFloat (Finite 1))])
   \<and> status (fst (post_items
        (JObj [(''name'', JInt 5), (''price'', JFloat (Finite 1))]) startup)) = 422"
proof -
  have h: "body_missing_or_mistyped
             (JObj [(''name'', JStr ''Mouse''), (''price'', JStr ''cheap'')])"
    by (simp add: body_missing_or_mistyped_def name_missing_or_mistyped_def
          price_missing_or_mistyped_def field_def is_string_def not_a_float_def
          reads_as_float_def float_syntax_def number_syntax_def steps trim_def drop_spaces.simps space_at_def whitespace_def
          lower_def is_digit_def strip_underscores_def)
  have n: "body_missing_or_mistyped (JObj [(''name'', JStr ''Mouse''), (''price'', JNull)])"
    by (simp add: body_missing_or_mistyped_def price_missing_or_mistyped_def field_def
          not_a_float_def)
  have m: "body_missing_or_mistyped (JObj [(''name'', JInt 5), (''price'', JFloat (Finite 1))])"
    by (simp add: body_missing_or_mistyped_def name_missing_or_mistyped_def field_def
          is_string_def)
  show ?thesis
    using h n m
      missing_or_mistyped_body_rejected [OF h, of startup 2]
      missing_or_mistyped_body_rejected [OF n, of startup 2]
      missing_or_mistyped_body_rejected [OF m, of startup 2]
    by blast
qed

subsection \<open>Declared column lengths\<close>

text \<open>
  C10 says that no stored item has a name longer than 100 characters. A POST whose name
  has 101 characters is answered 201, and the row it stores is not within the declared
  lengths.
\<close>

theorem overlong_name_stored:
  "fst (create_item \<lparr>name = replicate 101 (CHR ''a''), description = None, price = Finite 1\<rparr>
          startup)
     \<in> set (snd (create_item
                   \<lparr>name = replicate 101 (CHR ''a''), description = None, price = Finite 1\<rparr>
                   startup))
   \<and> \<not> within_declared_lengths
         (fst (create_item
                 \<lparr>name = replicate 101 (CHR ''a''), description = None, price = Finite 1\<rparr>
                 startup))
   \<and> status (fst (post_items
         (JObj [(''name'', JStr (replicate 101 (CHR ''a''))), (''price'', JInt 1)])
         startup)) = 201"
  by (simp add: create_item_def add_commit_def within_declared_lengths_def name_length_def
        body_defs route_create_item_def render_def ItemResponse_def stored_float_def
        int_as_float_def double_defs)

end
